theory Spec2Isabelle
  imports Main
begin

section \<open>Strings and Python values\<close>

text \<open>
  Python strings are modelled as \<open>string\<close> (lists of 8-bit characters) and read as
  ASCII text: the character classes below are the ASCII ones of the \<open>string\<close> module,
  and \<open>str.lower\<close> changes the letters A to Z only.
\<close>

definition ascii_lowercase :: string where
  "ascii_lowercase = ''abcdefghijklmnopqrstuvwxyz''"

definition ascii_uppercase :: string where
  "ascii_uppercase = ''ABCDEFGHIJKLMNOPQRSTUVWXYZ''"

definition ascii_letters :: string where
  "ascii_letters = ascii_lowercase @ ascii_uppercase"

definition digits :: string where
  "digits = ''0123456789''"

definition newline :: string where
  "newline = [CHR 0x0A]"

definition dquote :: string where
  "dquote = [CHR 0x22]"

definition squote :: string where
  "squote = [CHR 0x27]"

text \<open>\<open>string.punctuation\<close>: the 32 ASCII characters with codes 33-47, 58-64, 91-96, 123-126.\<close>

definition punctuation :: string where
  "punctuation =
     ''!'' @ dquote @ ''#$%&'' @ squote @ ''()*+,-./:;<=>?@['' @ [CHR 0x5C] @ '']^_'' @ [CHR 0x60] @ ''{|}~''"

text \<open>\<open>str.lower\<close> on one character and on a string.\<close>

definition lower_char :: "char \<Rightarrow> char" where
  "lower_char c =
     (case map_of (zip ascii_uppercase ascii_lowercase) c of
        Some l \<Rightarrow> l
      | None \<Rightarrow> c)"

definition lower :: "string \<Rightarrow> string" where
  "lower s = map lower_char s"

text \<open>\<open>s.replace(' ', '-')\<close>.\<close>

definition replace_space_hyphen :: "string \<Rightarrow> string" where
  "replace_space_hyphen s = map (\<lambda>c. if c = CHR '' '' then CHR ''-'' else c) s"

text \<open>\<open>str(n)\<close> for a natural number, and \<open>int(s)\<close> for a string of decimal digits.\<close>

definition digit_char :: "nat \<Rightarrow> char" where
  "digit_char d = digits ! d"

function string_of_nat :: "nat \<Rightarrow> string" where
  "string_of_nat n = (if n < 10 then [digit_char n] else string_of_nat (n div 10) @ [digit_char (n mod 10)])"
  by pat_completeness auto
termination
  by (relation "measure id") auto

declare string_of_nat.simps [simp del]

definition int_of_string :: "string \<Rightarrow> nat" where
  "int_of_string s = foldl (\<lambda>acc c. 10 * acc + (of_char c - 48)) 0 s"

text \<open>\<open>str.isnumeric\<close>, \<open>str.isalnum\<close>, \<open>str.isidentifier\<close> on ASCII text.\<close>

definition isnumeric :: "string \<Rightarrow> bool" where
  "isnumeric s = (s \<noteq> [] \<and> list_all (\<lambda>c. c \<in> set digits) s)"

definition isalnum :: "string \<Rightarrow> bool" where
  "isalnum s = (s \<noteq> [] \<and> list_all (\<lambda>c. c \<in> set ascii_letters \<or> c \<in> set digits) s)"

definition isidentifier :: "string \<Rightarrow> bool" where
  "isidentifier s =
     (case s of
        [] \<Rightarrow> False
      | c # cs \<Rightarrow>
          (c \<in> set ascii_letters \<or> c = CHR ''_'') \<and>
          list_all (\<lambda>d. d \<in> set ascii_letters \<or> d \<in> set digits \<or> d = CHR ''_'') cs)"

text \<open>
  Modelled from the spec: \<open>workflow.ProjectCreationMode\<close> is imported from a module that is
  not among the source files; the spec gives it as the enum \<open>{MUST_EXIST, CREATE_NEW}\<close>.
\<close>

datatype ProjectCreationMode = MUST_EXIST | CREATE_NEW

text \<open>
  The values an answer mapping can hold: strings, \<open>None\<close>, booleans (the
  \<open>use_existing_project\<close> flag), the creation mode and an opaque credential handle,
  which carries the text that \<open>str()\<close> shows for it.
\<close>

datatype pyval =
    Str string
  | PyNone
  | PyBool bool
  | Mode ProjectCreationMode
  | Credentials string

type_synonym args = "string \<rightharpoonup> pyval"

text \<open>\<open>args.get(key, None)\<close>.\<close>

definition get_or_none :: "args \<Rightarrow> string \<Rightarrow> pyval" where
  "get_or_none a k = (case a k of None \<Rightarrow> PyNone | Some v \<Rightarrow> v)"

text \<open>Truth value of a Python value in a condition.\<close>

fun truthy :: "pyval \<Rightarrow> bool" where
  "truthy (Str s) = (s \<noteq> [])"
| "truthy PyNone = False"
| "truthy (PyBool b) = b"
| "truthy (Mode m) = True"
| "truthy (Credentials c) = True"

text \<open>\<open>str(v)\<close>, as \<open>format\<close> renders a value.\<close>

fun str :: "pyval \<Rightarrow> string" where
  "str (Str s) = s"
| "str PyNone = ''None''"
| "str (PyBool b) = (if b then ''True'' else ''False'')"
| "str (Mode MUST_EXIST) = ''ProjectCreationMode.MUST_EXIST''"
| "str (Mode CREATE_NEW) = ''ProjectCreationMode.CREATE_NEW''"
| "str (Credentials c) = c"

section \<open>Errors, the console and the world\<close>

text \<open>
  Every exception of the source is a value. \<open>ValueError\<close> is the one the prompt loops
  catch; \<open>EOFError\<close> is what reading from an exhausted input raises;
  \<open>NoMoreResponses\<close> marks the end of the scripted billing-service responses, where the
  real polling loop would keep waiting.
\<close>

datatype error =
    ValueError string
  | EOFError
  | AssertionError string
  | KeyError string
  | IndexError
  | TypeError
  | AttributeError
  | NoMoreResponses

datatype event =
    Ask string
  | Getpass string
  | Tell string
  | Error string
  | OpenBrowser string
  | Sleep nat

text \<open>An entry of the billing service's account list.\<close>

record account =
  name :: string
  displayName :: string

text \<open>
  The world threaded through a run: the lines the user will still type, the log of
  console output and other effects (oldest first), and the successive answers of
  \<open>billing_client.list_billing_accounts(only_open_accounts=True)\<close>.
\<close>

record world =
  inputs :: "string list"
  trace :: "event list"
  billing_responses :: "account list list"

definition emit :: "event \<Rightarrow> world \<Rightarrow> world" where
  "emit e w = w\<lparr>trace := trace w @ [e]\<rparr>"

definition tell :: "string \<Rightarrow> world \<Rightarrow> world" where
  "tell msg w = emit (Tell msg) w"

definition console_error :: "string \<Rightarrow> world \<Rightarrow> world" where
  "console_error msg w = emit (Error msg) w"

definition ask :: "string \<Rightarrow> world \<Rightarrow> error + (string \<times> world)" where
  "ask q w =
     (case inputs w of
        [] \<Rightarrow> Inl EOFError
      | a # rest \<Rightarrow> Inr (a, emit (Ask q) (w\<lparr>inputs := rest\<rparr>)))"

definition getpass :: "string \<Rightarrow> world \<Rightarrow> error + (string \<times> world)" where
  "getpass q w =
     (case inputs w of
        [] \<Rightarrow> Inl EOFError
      | a # rest \<Rightarrow> Inr (a, emit (Getpass q) (w\<lparr>inputs := rest\<rparr>)))"

definition list_billing_accounts :: "world \<Rightarrow> error + (account list \<times> world)" where
  "list_billing_accounts w =
     (case billing_responses w of
        [] \<Rightarrow> Inl NoMoreResponses
      | r # rest \<Rightarrow> Inr (r, w\<lparr>billing_responses := rest\<rparr>))"

section \<open>Validators\<close>

text \<open>
  A validator returns \<open>None\<close> when it returns normally and \<open>Some e\<close> when it raises
  \<open>e\<close>. The ones that inspect their argument as a string raise \<open>TypeError\<close> on any
  other value.
\<close>

type_synonym validator = "pyval \<Rightarrow> error option"

definition on_str :: "error \<Rightarrow> (string \<Rightarrow> error option) \<Rightarrow> validator" where
  "on_str e f v = (case v of Str s \<Rightarrow> f s | _ \<Rightarrow> Some e)"

text \<open>\<open>TemplatePrompt._validate\<close>: the base class accepts everything.\<close>

definition TemplatePrompt_validate :: validator where
  "TemplatePrompt_validate v = None"

definition password_validate_str :: "string \<Rightarrow> error option" where
  "password_validate_str s =
     (if length s < 5 then Some (ValueError ''Passwords must be at least 6 characters long'')
      else if set (ascii_letters @ digits @ punctuation) \<subseteq> set s
        then Some (ValueError ''Invalid character in password: use letters, numbers and punctuation'')
      else None)"

definition password_validate :: validator where
  "password_validate = on_str TypeError password_validate_str"

text \<open>
  \<open>_multiple_choice_validate(s, dflt, len_options)\<close>; \<open>default\<close> (here \<open>dflt\<close>) is \<open>None\<close> or a string.
\<close>

definition multiple_choice_validate :: "string \<Rightarrow> string option \<Rightarrow> nat \<Rightarrow> error option" where
  "multiple_choice_validate s dflt len_options =
     (if dflt \<noteq> None \<and> s = [] then None
      else if \<not> isnumeric s then Some (ValueError ''Please enter a numeric value'')
      else if 1 \<le> int_of_string s \<and> int_of_string s \<le> len_options + 1 then None
      else Some (ValueError ''Value is not in range''))"

definition binary_validate :: "string \<Rightarrow> error option" where
  "binary_validate s =
     (if lower s \<notin> {''y'', ''n''}
      then Some (ValueError (''Please respond using '' @ dquote @ ''y'' @ dquote @ '' or '' @ dquote @ ''n'' @ dquote))
      else None)"

text \<open>\<open>re.match(r'[a-z][a-z0-9\-]{5,29}', s)\<close>: anchored at the start only.\<close>

definition project_id_match :: "string \<Rightarrow> bool" where
  "project_id_match s =
     (case s of
        [] \<Rightarrow> False
      | c # cs \<Rightarrow>
          c \<in> set ascii_lowercase \<and>
          5 \<le> length (takeWhile (\<lambda>d. d \<in> set ascii_lowercase \<or> d \<in> set digits \<or> d = CHR ''-'') cs))"

definition project_id_error :: "string \<Rightarrow> error" where
  "project_id_error s =
     ValueError (''Invalid Google Cloud Platform Project ID '' @ dquote @ s @ dquote @
       '': must be between 6 and 30 characters and contain lowercase letters, digits or hyphens'')"

definition GoogleNewProjectId_validate :: validator where
  "GoogleNewProjectId_validate =
     on_str TypeError (\<lambda>s. if \<not> project_id_match s then Some (project_id_error s) else None)"

text \<open>
  \<open>re.match(r'[^@]+@[^@]+\.[^@]+', s)\<close>: a non-empty prefix without \<open>@\<close>, an \<open>@\<close>, and then,
  before any further \<open>@\<close>, a dot with a character on each side.
\<close>

definition email_match :: "string \<Rightarrow> bool" where
  "email_match s =
     (let local_part = takeWhile (\<lambda>c. c \<noteq> CHR ''@'') s;
          rest = dropWhile (\<lambda>c. c \<noteq> CHR ''@'') s
      in local_part \<noteq> [] \<and> rest \<noteq> [] \<and>
         CHR ''.'' \<in> set (butlast (tl (takeWhile (\<lambda>c. c \<noteq> CHR ''@'') (tl rest)))))"

definition DjangoProjectName_validate :: validator where
  "DjangoProjectName_validate =
     on_str AttributeError (\<lambda>s.
       if \<not> isidentifier s
       then Some (ValueError (''Invalid Django project name '' @ dquote @ s @ dquote @
              '': must be a valid Python identifier''))
       else None)"

definition DjangoAppName_validate :: validator where
  "DjangoAppName_validate =
     on_str AttributeError (\<lambda>s.
       if \<not> isidentifier s
       then Some (ValueError (''Invalid Django project name '' @ dquote @ s @ dquote @
              '': must be a valid Python identifier''))
       else None)"

definition DjangoSuperuserLogin_validate :: validator where
  "DjangoSuperuserLogin_validate =
     on_str AttributeError (\<lambda>s.
       if \<not> isalnum s
       then Some (ValueError (''Invalid Django superuser login '' @ dquote @ s @ dquote @
              '': must be a alpha numeric''))
       else None)"

definition DjangoSuperuserEmail_validate :: validator where
  "DjangoSuperuserEmail_validate =
     on_str TypeError (\<lambda>s.
       if \<not> email_match s
       then Some (ValueError (''Invalid Django superuser email address '' @ dquote @ s @ dquote @
              '': the format should be like '' @ dquote @ ''test@example.com'' @ dquote))
       else None)"

section \<open>Prompt primitives\<close>

text \<open>
  \<open>_ask_prompt\<close>: the loop asks, substitutes a non-empty default for a blank answer,
  validates, and on \<open>ValueError\<close> shows the error and asks again. Any other exception of
  the validator leaves the loop.
\<close>

function ask_prompt :: "string \<Rightarrow> validator \<Rightarrow> string option \<Rightarrow> world \<Rightarrow> error + (string \<times> world)" where
  "ask_prompt question validate dflt w =
     (case ask question w of
        Inl e \<Rightarrow> Inl e
      | Inr (typed, w1) \<Rightarrow>
          (case validate (Str (if dflt \<noteq> None \<and> dflt \<noteq> Some [] \<and> typed = [] then the dflt else typed)) of
             None \<Rightarrow> Inr (if dflt \<noteq> None \<and> dflt \<noteq> Some [] \<and> typed = [] then the dflt else typed, w1)
           | Some (ValueError msg) \<Rightarrow> ask_prompt question validate dflt (console_error msg w1)
           | Some e \<Rightarrow> Inl e))"
  by pat_completeness auto
termination
  by (relation "measure (\<lambda>(q, v, d, w). length (inputs w))")
     (auto simp: ask_def console_error_def emit_def split: list.splits)

declare ask_prompt.simps [simp del]

text \<open>\<open>question.format(arg)\<close> for a template with one \<open>{}\<close> field, and \<open>sep.join(xs)\<close>.\<close>

fun format1 :: "string \<Rightarrow> string \<Rightarrow> string" where
  "format1 [] a = []"
| "format1 [c] a = [c]"
| "format1 (c # d # cs) a =
     (if c = CHR 0x7B \<and> d = CHR 0x7D then a @ cs else c # format1 (d # cs) a)"

fun join :: "string \<Rightarrow> string list \<Rightarrow> string" where
  "join sep [] = []"
| "join sep [x] = x"
| "join sep (x # y # ys) = x @ sep @ join sep (y # ys)"

text \<open>\<open>enumerate(xs, start)\<close>.\<close>

definition enumerate_from :: "nat \<Rightarrow> 'a list \<Rightarrow> (nat \<times> 'a) list" where
  "enumerate_from start xs = zip [start..<start + length xs] xs"

text \<open>
  \<open>_multiple_choice_prompt\<close>. The source rebinds \<open>options\<close> to the joined text of the
  numbered list before it calls \<open>len(options)\<close>, so the validator receives the length
  of that text. After a rejected answer the question is asked again unformatted.
\<close>

function multiple_choice_loop ::
  "string \<Rightarrow> string option \<Rightarrow> nat \<Rightarrow> string \<Rightarrow> world \<Rightarrow> error + (string \<times> world)" where
  "multiple_choice_loop question dflt len_options answer w =
     (case multiple_choice_validate answer dflt len_options of
        None \<Rightarrow> Inr (answer, w)
      | Some (ValueError msg) \<Rightarrow>
          (case ask question (console_error msg w) of
             Inl e \<Rightarrow> Inl e
           | Inr (answer', w') \<Rightarrow> multiple_choice_loop question dflt len_options answer' w')
      | Some e \<Rightarrow> Inl e)"
  by pat_completeness auto
termination
  by (relation "measure (\<lambda>(q, d, n, a, w). length (inputs w))")
     (auto simp: ask_def console_error_def emit_def split: list.splits)

declare multiple_choice_loop.simps [simp del]

definition multiple_choice_prompt ::
  "string \<Rightarrow> string list \<Rightarrow> string option \<Rightarrow> world \<Rightarrow> error + (string \<times> world)" where
  "multiple_choice_prompt question options dflt w =
     (let options_formatted =
            map (\<lambda>(i, opt). string_of_nat i @ ''. '' @ opt) (enumerate_from 1 options);
          options_joined = join newline options_formatted
      in case ask (format1 question options_joined) w of
           Inl e \<Rightarrow> Inl e
         | Inr (answer, w1) \<Rightarrow>
             multiple_choice_loop question dflt (length options_joined) answer w1)"

text \<open>
  \<open>_binary_prompt\<close>: only a blank answer replaced by a non-empty default is validated;
  anything the user types is returned as it is.
\<close>

function binary_prompt :: "string \<Rightarrow> string option \<Rightarrow> world \<Rightarrow> error + (string \<times> world)" where
  "binary_prompt question dflt w =
     (case ask question w of
        Inl e \<Rightarrow> Inl e
      | Inr (typed, w1) \<Rightarrow>
          (if dflt \<noteq> None \<and> dflt \<noteq> Some [] \<and> typed = [] then
             (case binary_validate (the dflt) of
                None \<Rightarrow> Inr (the dflt, w1)
              | Some (ValueError msg) \<Rightarrow> binary_prompt question dflt (console_error msg w1)
              | Some e \<Rightarrow> Inl e)
           else Inr (typed, w1)))"
  by pat_completeness auto
termination
  by (relation "measure (\<lambda>(q, d, w). length (inputs w))")
     (auto simp: ask_def console_error_def emit_def split: list.splits)

declare binary_prompt.simps [simp del]

text \<open>\<open>_password_prompt\<close>: the question is shown once, then the two masked reads repeat.\<close>

function password_loop :: "world \<Rightarrow> error + (string \<times> world)" where
  "password_loop w =
     (case getpass ''Password: '' w of
        Inl e \<Rightarrow> Inl e
      | Inr (password1, w1) \<Rightarrow>
          (case password_validate (Str password1) of
             Some (ValueError msg) \<Rightarrow> password_loop (console_error msg w1)
           | Some e \<Rightarrow> Inl e
           | None \<Rightarrow>
               (case getpass ''Password (again): '' w1 of
                  Inl e \<Rightarrow> Inl e
                | Inr (password2, w2) \<Rightarrow>
                    (if password1 \<noteq> password2
                     then password_loop (console_error ''Passwords do not match, please try again'' w2)
                     else Inr (password1, w2)))))"
  by pat_completeness auto
termination
  by (relation "measure (\<lambda>w. length (inputs w))")
     (auto simp: getpass_def console_error_def emit_def split: list.splits)

declare password_loop.simps [simp del]

definition password_prompt :: "string \<Rightarrow> world \<Rightarrow> error + (string \<times> world)" where
  "password_prompt question w = password_loop (tell question w)"

section \<open>Service clients and the environment\<close>

text \<open>
  The cloud clients are opaque collaborators. \<open>get_project\<close> stands for
  \<open>project_client.get_project(id)['name']\<close>; the response of \<open>get_billing_account\<close> is a
  dictionary in which both keys may be missing.
\<close>

record project_client =
  get_project :: "pyval \<Rightarrow> string"
  project_exists :: "string \<Rightarrow> bool"

record billing_info =
  billingEnabled :: "bool option"
  billingAccountName :: "string option"

record billing_client =
  get_billing_account :: "pyval \<Rightarrow> billing_info"

record auth_client =
  get_active_account :: "string option"
  create_default_credentials :: string
  get_default_credentials :: string

text \<open>
  What a run reads from its surroundings: the file system (\<open>os.path.exists\<close>,
  \<open>os.path.expanduser('~')\<close>), the number \<open>random.randint(100000, 1000000)\<close> draws, the
  order in which \<open>list()\<close> enumerates a set of names (given here as a duplicate-free list),
  and the constructors of the clients.
\<close>

record system =
  os_path_exists :: "string \<Rightarrow> bool"
  home_dir :: string
  randint :: nat
  set_order :: "string list \<Rightarrow> string list"
  AuthClient :: auth_client
  ProjectClient_from_credentials :: "pyval \<Rightarrow> project_client"
  BillingClient_from_credentials :: "pyval \<Rightarrow> billing_client"

text \<open>\<open>os.path.join(a, b)\<close> on POSIX.\<close>

definition os_path_join :: "string \<Rightarrow> string \<Rightarrow> string" where
  "os_path_join a b =
     (if b \<noteq> [] \<and> hd b = CHR ''/'' then b
      else if a = [] \<or> last a = CHR ''/'' then a @ b
      else a @ ''/'' @ b)"

section \<open>Parameter prompters\<close>

text \<open>
  \<open>TemplatePrompt._is_valid_passed_arg\<close>: a value of \<open>None\<close> is no flag; a value the
  validator rejects is reported; an accepted one is confirmed with one line.
\<close>

definition is_valid_passed_arg ::
  "string \<Rightarrow> string \<Rightarrow> pyval \<Rightarrow> validator \<Rightarrow> world \<Rightarrow> error + (bool \<times> world)" where
  "is_valid_passed_arg PARAMETER step val validate w =
     (if val = PyNone then Inr (False, w)
      else
        (case validate val of
           Some (ValueError msg) \<Rightarrow> Inr (False, console_error msg w)
         | Some e \<Rightarrow> Inl e
         | None \<Rightarrow> Inr (True, tell (step @ '' '' @ PARAMETER @ '': '' @ str val) w)))"

subsection \<open>StringTemplatePrompt\<close>

definition StringTemplatePrompt_prompt ::
  "string \<Rightarrow> string \<Rightarrow> string \<Rightarrow> validator \<Rightarrow> string \<Rightarrow> args \<Rightarrow> world \<Rightarrow> error + (args \<times> world)" where
  "StringTemplatePrompt_prompt PARAMETER PARAMETER_PRETTY DEFAULT_VALUE validate step a w =
     (case is_valid_passed_arg PARAMETER step (get_or_none a PARAMETER) validate w of
        Inl e \<Rightarrow> Inl e
      | Inr (True, w1) \<Rightarrow> Inr (a, w1)
      | Inr (False, w1) \<Rightarrow>
          (let base_message = step @ '' Enter a value for '' @ PARAMETER_PRETTY @ '' or leave blank to use'';
               default_message = ''['' @ DEFAULT_VALUE @ '']: '';
               msg = join newline [base_message, default_message]
           in case ask_prompt msg validate (Some DEFAULT_VALUE) w1 of
                Inl e \<Rightarrow> Inl e
              | Inr (answer, w2) \<Rightarrow> Inr (a(PARAMETER \<mapsto> Str answer), w2)))"

subsection \<open>GoogleProjectName\<close>

definition is_new_project :: "pyval \<Rightarrow> bool" where
  "is_new_project project_creation_mode = (project_creation_mode \<noteq> Mode MUST_EXIST)"

definition GoogleProjectName_validate :: "project_client \<Rightarrow> pyval \<Rightarrow> pyval \<Rightarrow> validator" where
  "GoogleProjectName_validate pc project_id project_creation_mode =
     on_str TypeError (\<lambda>s.
       if \<not> (4 \<le> length s \<and> length s \<le> 30)
       then Some (ValueError (''Invalid Google Cloud Platform project name '' @ dquote @ s @ dquote @
              '': must be between 4 and 30 characters''))
       else if is_new_project project_creation_mode then None
       else if project_id = PyNone then Some (ValueError ''Project Id must be set'')
       else if get_project pc project_id \<noteq> s
         then Some (ValueError ''Wrong project name given for project id.'')
       else None)"

definition handle_new_project ::
  "project_client \<Rightarrow> string \<Rightarrow> args \<Rightarrow> world \<Rightarrow> error + (string \<times> world)" where
  "handle_new_project pc step a w =
     (let default_answer = ''Django Project'';
          msg_base = step @ '' Enter a Google Cloud Platform project name, or leave blank to use'';
          msg_default = ''['' @ default_answer @ '']: '';
          msg = join newline [msg_base, msg_default];
          project_id = get_or_none a ''project_id'';
          project_creation_mode = get_or_none a ''project_creation_mode''
      in ask_prompt msg (GoogleProjectName_validate pc project_id project_creation_mode)
           (Some default_answer) w)"

definition handle_existing_project ::
  "project_client \<Rightarrow> string \<Rightarrow> args \<Rightarrow> world \<Rightarrow> error + (string \<times> world)" where
  "handle_existing_project pc step a w =
     (case a ''project_id'' of
        None \<Rightarrow> Inl (AssertionError ''project_id must be set'')
      | Some project_id \<Rightarrow>
          (let project_name = get_project pc project_id
           in Inr (project_name, tell (step @ '' project_name: '' @ project_name) w)))"

definition GoogleProjectName_prompt ::
  "project_client \<Rightarrow> string \<Rightarrow> args \<Rightarrow> world \<Rightarrow> error + (args \<times> world)" where
  "GoogleProjectName_prompt pc step a w =
     (let project_id = get_or_none a ''project_id'';
          project_creation_mode = get_or_none a ''project_creation_mode''
      in case is_valid_passed_arg ''project_name'' step (get_or_none a ''project_name'')
                (GoogleProjectName_validate pc project_id project_creation_mode) w of
           Inl e \<Rightarrow> Inl e
         | Inr (True, w1) \<Rightarrow> Inr (a, w1)
         | Inr (False, w1) \<Rightarrow>
             (if is_new_project project_creation_mode then
                (case handle_new_project pc step a w1 of
                   Inl e \<Rightarrow> Inl e
                 | Inr (answer, w2) \<Rightarrow> Inr (a(''project_name'' \<mapsto> Str answer), w2))
              else
                (case handle_existing_project pc step a w1 of
                   Inl e \<Rightarrow> Inl e
                 | Inr (answer, w2) \<Rightarrow> Inr (a(''project_name'' \<mapsto> Str answer), w2))))"

subsection \<open>GoogleNewProjectId, GoogleExistingProjectId, GoogleProjectId\<close>

text \<open>
  \<open>_generate_default_project_id(project_name)\<close>, with the number that \<open>random.randint\<close>
  returns as the second argument.
\<close>

definition generate_default_project_id :: "pyval \<Rightarrow> nat \<Rightarrow> error + string" where
  "generate_default_project_id project_name r =
     (case (if truthy project_name then project_name else Str ''django'') of
        Str s \<Rightarrow>
          (let lowered = replace_space_hyphen (lower s);
               prefixed = (if hd lowered \<notin> set ascii_lowercase then ''django-'' @ lowered else lowered);
               stripped = filter (\<lambda>c. c \<in> set ascii_lowercase \<or> c \<in> set digits \<or> c = CHR ''-'') prefixed
           in Inr (take (30 - 6 - 1) stripped @ ''-'' @ string_of_nat r))
      | _ \<Rightarrow> Inl AttributeError)"

definition GoogleNewProjectId_prompt ::
  "system \<Rightarrow> string \<Rightarrow> args \<Rightarrow> world \<Rightarrow> error + (args \<times> world)" where
  "GoogleNewProjectId_prompt sys step a w =
     (case is_valid_passed_arg ''project_id'' step (get_or_none a ''project_id'')
             GoogleNewProjectId_validate w of
        Inl e \<Rightarrow> Inl e
      | Inr (True, w1) \<Rightarrow> Inr (a, w1)
      | Inr (False, w1) \<Rightarrow>
          (case generate_default_project_id (get_or_none a ''project_name'') (randint sys) of
             Inl e \<Rightarrow> Inl e
           | Inr default_answer \<Rightarrow>
               (let msg_base = step @ '' Enter a Google Cloud Platform Project ID, or leave blank to use'';
                    msg_default = ''['' @ default_answer @ '']: '';
                    msg = join newline [msg_base, msg_default]
                in case ask_prompt msg GoogleNewProjectId_validate (Some default_answer) w1 of
                     Inl e \<Rightarrow> Inl e
                   | Inr (answer, w2) \<Rightarrow> Inr (a(''project_id'' \<mapsto> Str answer), w2))))"

definition GoogleExistingProjectId_validate :: "project_client \<Rightarrow> validator" where
  "GoogleExistingProjectId_validate pc =
     on_str TypeError (\<lambda>s.
       if \<not> project_id_match s then Some (project_id_error s)
       else if \<not> project_exists pc s then Some (ValueError (''Project '' @ s @ '' does not exist''))
       else None)"

definition GoogleExistingProjectId_prompt ::
  "project_client \<Rightarrow> string \<Rightarrow> args \<Rightarrow> world \<Rightarrow> error + (args \<times> world)" where
  "GoogleExistingProjectId_prompt pc step a w =
     (case is_valid_passed_arg ''project_id'' step (get_or_none a ''project_id'')
             (GoogleExistingProjectId_validate pc) w of
        Inl e \<Rightarrow> Inl e
      | Inr (True, w1) \<Rightarrow> Inr (a, w1)
      | Inr (False, w1) \<Rightarrow>
          (let msg = step @ '' Enter the <b>existing<b> Google Cloud Platform Project ID to use.''
           in case ask_prompt msg (GoogleExistingProjectId_validate pc) None w1 of
                Inl e \<Rightarrow> Inl e
              | Inr (answer, w2) \<Rightarrow> Inr (a(''project_id'' \<mapsto> Str answer), w2)))"

definition GoogleProjectId_prompt ::
  "system \<Rightarrow> project_client \<Rightarrow> string \<Rightarrow> args \<Rightarrow> world \<Rightarrow> error + (args \<times> world)" where
  "GoogleProjectId_prompt sys pc step a w =
     (if truthy (case a ''use_existing_project'' of None \<Rightarrow> PyBool False | Some v \<Rightarrow> v)
      then GoogleExistingProjectId_prompt pc step a w
      else GoogleNewProjectId_prompt sys step a w)"

subsection \<open>CredentialsPrompt\<close>

definition CredentialsPrompt_prompt ::
  "auth_client \<Rightarrow> string \<Rightarrow> args \<Rightarrow> world \<Rightarrow> error + (args \<times> world)" where
  "CredentialsPrompt_prompt ac step a w =
     (case is_valid_passed_arg ''credentials'' step (get_or_none a ''credentials'')
             TemplatePrompt_validate w of
        Inl e \<Rightarrow> Inl e
      | Inr (True, w1) \<Rightarrow> Inr (a, w1)
      | Inr (False, w1) \<Rightarrow>
          (let w2 = tell (step @ '' In order to deploy your application, you must allow Django Deploy to access your Google account.'') w1;
               active_account = get_active_account ac;
               msg = ''You have logged in with account ['' @
                     (case active_account of None \<Rightarrow> ''None'' | Some acc \<Rightarrow> acc) @
                     '']. Do you want to use it? [Y/n]: ''
           in case binary_prompt msg (Some ''Y'') w2 of
                Inl e \<Rightarrow> Inl e
              | Inr (use_active_credentials, w3) \<Rightarrow>
                  (let create_new_credentials =
                         (if active_account \<noteq> None \<and> active_account \<noteq> Some []
                          then lower use_active_credentials = ''n'' else True);
                       creds = (if create_new_credentials then create_default_credentials ac
                                else get_default_credentials ac)
                   in Inr (a(''credentials'' \<mapsto> Credentials creds), w3))))"

subsection \<open>BillingPrompt\<close>

text \<open>
  \<open>_get_new_billing_account\<close>: the loop polls until the account list has another length
  than the one it started from, then takes element 0 of the listed set difference.
\<close>

function poll_billing_accounts ::
  "system \<Rightarrow> account list \<Rightarrow> world \<Rightarrow> error + (string \<times> world)" where
  "poll_billing_accounts sys existing_billing_accounts w =
     (case list_billing_accounts w of
        Inl e \<Rightarrow> Inl e
      | Inr (billing_accounts, w1) \<Rightarrow>
          (if length existing_billing_accounts \<noteq> length billing_accounts then
             (case set_order sys
                     (remdups (filter (\<lambda>n. n \<notin> set (map name existing_billing_accounts))
                        (map name billing_accounts))) of
                [] \<Rightarrow> Inl IndexError
              | first # others \<Rightarrow> Inr (first, w1))
           else poll_billing_accounts sys existing_billing_accounts (emit (Sleep 2) w1)))"
  by pat_completeness auto
termination
  by (relation "measure (\<lambda>(s, e, w). length (billing_responses w))")
     (auto simp: list_billing_accounts_def emit_def split: list.splits)

declare poll_billing_accounts.simps [simp del]

definition get_new_billing_account ::
  "system \<Rightarrow> account list \<Rightarrow> world \<Rightarrow> error + (string \<times> world)" where
  "get_new_billing_account sys existing_billing_accounts w =
     poll_billing_accounts sys existing_billing_accounts
       (tell ''Waiting for billing account to be created.''
          (emit (OpenBrowser ''https://console.cloud.google.com/billing/create'') w))"

definition does_project_exist :: "pyval \<Rightarrow> bool" where
  "does_project_exist project_creation_mode = (project_creation_mode = Mode MUST_EXIST)"

definition has_existing_billing_account ::
  "billing_client \<Rightarrow> string \<Rightarrow> args \<Rightarrow> world \<Rightarrow> error + (string option \<times> world)" where
  "has_existing_billing_account bc step a w =
     (case a ''project_id'' of
        None \<Rightarrow> Inl (AssertionError ''project_id must be set'')
      | Some project_id \<Rightarrow>
          (let billing_account = get_billing_account bc project_id
           in if billingEnabled billing_account \<noteq> Some True then Inr (None, w)
              else Inr (billingAccountName billing_account,
                        tell (step @ '' Billing is already enabled on this project.'') w)))"

definition handle_existing_billing_accounts ::
  "system \<Rightarrow> account list \<Rightarrow> world \<Rightarrow> error + (string \<times> world)" where
  "handle_existing_billing_accounts sys billing_accounts w =
     (let question = ''You have the following existing billing accounts:'' @ newline @ ''{}'' @ newline @
                     ''Please enter your numeric choice or press [Enter] to create a new billing account: '';
          options = map displayName billing_accounts;
          new_billing_account = []
      in case multiple_choice_prompt question options (Some new_billing_account) w of
           Inl e \<Rightarrow> Inl e
         | Inr (answer, w1) \<Rightarrow>
             (if answer = new_billing_account then get_new_billing_account sys billing_accounts w1
              else if int_of_string answer - 1 < length billing_accounts
                then Inr (name (billing_accounts ! (int_of_string answer - 1)), w1)
              else Inl IndexError))"

definition BillingPrompt_prompt ::
  "system \<Rightarrow> billing_client \<Rightarrow> string \<Rightarrow> args \<Rightarrow> world \<Rightarrow> error + (args \<times> world)" where
  "BillingPrompt_prompt sys bc step a w =
     (case is_valid_passed_arg ''billing_account_name'' step (get_or_none a ''billing_account_name'')
             TemplatePrompt_validate w of
        Inl e \<Rightarrow> Inl e
      | Inr (True, w1) \<Rightarrow> Inr (a, w1)
      | Inr (False, w1) \<Rightarrow>
          (case (if does_project_exist (get_or_none a ''project_creation_mode'')
                 then has_existing_billing_account bc step a w1
                 else Inr (None, w1)) of
             Inl e \<Rightarrow> Inl e
           | Inr (Some billing_account, w2) \<Rightarrow>
               Inr (a(''billing_account_name'' \<mapsto> Str billing_account), w2)
           | Inr (None, w2) \<Rightarrow>
               (case list_billing_accounts w2 of
                  Inl e \<Rightarrow> Inl e
                | Inr (billing_accounts, w3) \<Rightarrow>
                    (let w4 = tell (step @ '' In order to deploy your application, you must enable billing for your Google Cloud Project.'') w3
                     in if billing_accounts \<noteq> [] then
                          (case handle_existing_billing_accounts sys billing_accounts w4 of
                             Inl e \<Rightarrow> Inl e
                           | Inr (val, w5) \<Rightarrow> Inr (a(''billing_account_name'' \<mapsto> Str val), w5))
                        else
                          (case ask ''Press [Enter] to create a new billing account.''
                                  (tell ''You do not have existing billing accounts.'' w4) of
                             Inl e \<Rightarrow> Inl e
                           | Inr (pressed, w5) \<Rightarrow>
                               (case get_new_billing_account sys billing_accounts w5 of
                                  Inl e \<Rightarrow> Inl e
                                | Inr (val, w6) \<Rightarrow>
                                    Inr (a(''billing_account_name'' \<mapsto> Str val), w6)))))))"

subsection \<open>Password prompters\<close>

definition PostgresPasswordPrompt_prompt ::
  "string \<Rightarrow> args \<Rightarrow> world \<Rightarrow> error + (args \<times> world)" where
  "PostgresPasswordPrompt_prompt step a w =
     (case is_valid_passed_arg ''database_password'' step (get_or_none a ''database_password'')
             password_validate w of
        Inl e \<Rightarrow> Inl e
      | Inr (True, w1) \<Rightarrow> Inr (a, w1)
      | Inr (False, w1) \<Rightarrow>
          (let msg = ''Enter a password for the default database user '' @ dquote @ ''postgres'' @ dquote;
               question = step @ '' '' @ msg
           in case password_prompt question w1 of
                Inl e \<Rightarrow> Inl e
              | Inr (password, w2) \<Rightarrow> Inr (a(''database_password'' \<mapsto> Str password), w2)))"

definition DjangoSuperuserPasswordPrompt_prompt ::
  "string \<Rightarrow> args \<Rightarrow> world \<Rightarrow> error + (args \<times> world)" where
  "DjangoSuperuserPasswordPrompt_prompt step a w =
     (case is_valid_passed_arg ''django_superuser_password'' step
             (get_or_none a ''django_superuser_password'') password_validate w of
        Inl e \<Rightarrow> Inl e
      | Inr (True, w1) \<Rightarrow> Inr (a, w1)
      | Inr (False, w1) \<Rightarrow>
          (case a ''django_superuser_login'' of
             None \<Rightarrow> Inl (KeyError ''django_superuser_login'')
           | Some login \<Rightarrow>
               (let msg = ''Enter a password for the Django superuser '' @ dquote @ str login @ dquote;
                    question = step @ '' '' @ msg
                in case password_prompt question w1 of
                     Inl e \<Rightarrow> Inl e
                   | Inr (answer, w2) \<Rightarrow>
                       Inr (a(''django_superuser_password'' \<mapsto> Str answer), w2))))"

subsection \<open>DjangoFilesystemPath\<close>

definition ask_to_replace :: "string \<Rightarrow> world \<Rightarrow> error + (string \<times> world)" where
  "ask_to_replace directory w =
     ask_prompt (''The directory '' @ squote @ directory @ squote @ '' already exists, replace it'' @
                 squote @ ''s contents [y/N]: '')
       (\<lambda>x. None) (Some ''n'') w"

definition ask_for_directory ::
  "system \<Rightarrow> string \<Rightarrow> args \<Rightarrow> world \<Rightarrow> error + (string \<times> world)" where
  "ask_for_directory sys step a w =
     (let base_msg = step @ '' Enter a new directory path to store project source, or leave blank to use''
      in case (case a ''project_name'' of None \<Rightarrow> Str ''django-project'' | Some v \<Rightarrow> v) of
           Str project_name \<Rightarrow>
             (let default_dir = os_path_join (home_dir sys) (replace_space_hyphen (lower project_name));
                  default_msg = ''['' @ default_dir @ '']: '';
                  msg = join newline [base_msg, default_msg]
              in ask_prompt msg (\<lambda>x. None) (Some default_dir) w)
         | _ \<Rightarrow> Inl AttributeError)"

text \<open>
  \<open>DjangoFilesystemPath.prompt\<close>: the body of its \<open>while True\<close> ends in \<open>break\<close> on every
  path, so it runs once. It does not look at a value passed in for its key.
\<close>

definition DjangoFilesystemPath_prompt ::
  "system \<Rightarrow> string \<Rightarrow> args \<Rightarrow> world \<Rightarrow> error + (args \<times> world)" where
  "DjangoFilesystemPath_prompt sys step a w =
     (case ask_for_directory sys step a w of
        Inl e \<Rightarrow> Inl e
      | Inr (directory, w1) \<Rightarrow>
          (if os_path_exists sys directory then
             (case ask_to_replace directory w1 of
                Inl e \<Rightarrow> Inl e
              | Inr (replace, w2) \<Rightarrow>
                  (if replace = ''y'' then Inr (a(''django_directory_path'' \<mapsto> Str directory), w2)
                   else Inr (a(''django_directory_path'' \<mapsto> Str directory), w2)))
           else Inr (a(''django_directory_path'' \<mapsto> Str directory), w1)))"

subsection \<open>The prompter classes\<close>

datatype prompter =
    GoogleProjectName project_client
  | GoogleNewProjectId
  | GoogleProjectId project_client
  | GoogleExistingProjectId project_client
  | CredentialsPrompt auth_client
  | BillingPrompt billing_client
  | PostgresPasswordPrompt
  | DjangoFilesystemPath
  | DjangoProjectNamePrompt
  | DjangoAppNamePrompt
  | DjangoSuperuserLoginPrompt
  | DjangoSuperuserPasswordPrompt
  | DjangoSuperuserEmailPrompt

fun PARAMETER :: "prompter \<Rightarrow> string" where
  "PARAMETER (GoogleProjectName pc) = ''project_name''"
| "PARAMETER GoogleNewProjectId = ''project_id''"
| "PARAMETER (GoogleProjectId pc) = ''project_id''"
| "PARAMETER (GoogleExistingProjectId pc) = ''project_id''"
| "PARAMETER (CredentialsPrompt ac) = ''credentials''"
| "PARAMETER (BillingPrompt bc) = ''billing_account_name''"
| "PARAMETER PostgresPasswordPrompt = ''database_password''"
| "PARAMETER DjangoFilesystemPath = ''django_directory_path''"
| "PARAMETER DjangoProjectNamePrompt = ''django_project_name''"
| "PARAMETER DjangoAppNamePrompt = ''django_app_name''"
| "PARAMETER DjangoSuperuserLoginPrompt = ''django_superuser_login''"
| "PARAMETER DjangoSuperuserPasswordPrompt = ''django_superuser_password''"
| "PARAMETER DjangoSuperuserEmailPrompt = ''django_superuser_email''"

text \<open>\<open>P.prompt(console, step, args)\<close>, dispatched on the class of \<open>P\<close>.\<close>

fun prompt :: "system \<Rightarrow> prompter \<Rightarrow> string \<Rightarrow> args \<Rightarrow> world \<Rightarrow> error + (args \<times> world)" where
  "prompt sys (GoogleProjectName pc) step a w = GoogleProjectName_prompt pc step a w"
| "prompt sys GoogleNewProjectId step a w = GoogleNewProjectId_prompt sys step a w"
| "prompt sys (GoogleProjectId pc) step a w = GoogleProjectId_prompt sys pc step a w"
| "prompt sys (GoogleExistingProjectId pc) step a w = GoogleExistingProjectId_prompt pc step a w"
| "prompt sys (CredentialsPrompt ac) step a w = CredentialsPrompt_prompt ac step a w"
| "prompt sys (BillingPrompt bc) step a w = BillingPrompt_prompt sys bc step a w"
| "prompt sys PostgresPasswordPrompt step a w = PostgresPasswordPrompt_prompt step a w"
| "prompt sys DjangoFilesystemPath step a w = DjangoFilesystemPath_prompt sys step a w"
| "prompt sys DjangoProjectNamePrompt step a w =
     StringTemplatePrompt_prompt ''django_project_name'' ''Django project name'' ''mysite''
       DjangoProjectName_validate step a w"
| "prompt sys DjangoAppNamePrompt step a w =
     StringTemplatePrompt_prompt ''django_app_name'' ''Django app name'' ''home''
       DjangoAppName_validate step a w"
| "prompt sys DjangoSuperuserLoginPrompt step a w =
     StringTemplatePrompt_prompt ''django_superuser_login'' ''Django superuser login name'' ''admin''
       DjangoSuperuserLogin_validate step a w"
| "prompt sys DjangoSuperuserPasswordPrompt step a w = DjangoSuperuserPasswordPrompt_prompt step a w"
| "prompt sys DjangoSuperuserEmailPrompt step a w =
     StringTemplatePrompt_prompt ''django_superuser_email'' ''Django superuser email'' ''test@example.com''
       DjangoSuperuserEmail_validate step a w"

section \<open>RootPrompt\<close>

definition PROMPT_ORDER :: "string list" where
  "PROMPT_ORDER =
     [''project_id'', ''project_name'', ''billing_account_name'', ''database_password'',
      ''django_directory_path'', ''django_project_name'', ''django_app_name'',
      ''django_superuser_login'', ''django_superuser_password'', ''django_superuser_email'']"

text \<open>\<open>'<b>[{}/{}]</b>'.format(i, total_steps)\<close>.\<close>

definition step_template :: "nat \<Rightarrow> nat \<Rightarrow> string" where
  "step_template i total_steps = ''<b>['' @ string_of_nat i @ ''/'' @ string_of_nat total_steps @ '']</b>''"

definition get_creds :: "system \<Rightarrow> string \<Rightarrow> args \<Rightarrow> world \<Rightarrow> error + (pyval \<times> world)" where
  "get_creds sys first_step a w =
     (case CredentialsPrompt_prompt (AuthClient sys) first_step a w of
        Inl e \<Rightarrow> Inl e
      | Inr (a', w') \<Rightarrow>
          (case a' ''credentials'' of
             None \<Rightarrow> Inl (KeyError ''credentials'')
           | Some creds \<Rightarrow> Inr (creds, w')))"

definition setup_prompts :: "system \<Rightarrow> pyval \<Rightarrow> (string \<rightharpoonup> prompter)" where
  "setup_prompts sys creds =
     (let project_client = ProjectClient_from_credentials sys creds;
          billing_client = BillingClient_from_credentials sys creds
      in map_of
           [(''project_id'', GoogleProjectId project_client),
            (''project_name'', GoogleProjectName project_client),
            (''billing_account_name'', BillingPrompt billing_client),
            (''database_password'', PostgresPasswordPrompt),
            (''django_directory_path'', DjangoFilesystemPath),
            (''django_project_name'', DjangoProjectNamePrompt),
            (''django_app_name'', DjangoAppNamePrompt),
            (''django_superuser_login'', DjangoSuperuserLoginPrompt),
            (''django_superuser_password'', DjangoSuperuserPasswordPrompt),
            (''django_superuser_email'', DjangoSuperuserEmailPrompt)])"

text \<open>The \<open>for\<close> loop of \<open>RootPrompt.prompt\<close> over \<open>enumerate(PROMPT_ORDER, 2)\<close>.\<close>

fun prompt_loop ::
  "system \<Rightarrow> (string \<rightharpoonup> prompter) \<Rightarrow> nat \<Rightarrow> (nat \<times> string) list \<Rightarrow> args \<Rightarrow> world \<Rightarrow> error + (args \<times> world)" where
  "prompt_loop sys prompts total_steps [] new_args w = Inr (new_args, w)"
| "prompt_loop sys prompts total_steps ((i, key) # rest) new_args w =
     (case prompts key of
        None \<Rightarrow> Inl (KeyError key)
      | Some p \<Rightarrow>
          (case prompt sys p (step_template i total_steps) new_args w of
             Inl e \<Rightarrow> Inl e
           | Inr (new_args', w') \<Rightarrow> prompt_loop sys prompts total_steps rest new_args' w'))"

definition RootPrompt_prompt :: "system \<Rightarrow> args \<Rightarrow> world \<Rightarrow> error + (args \<times> world)" where
  "RootPrompt_prompt sys a w =
     (let new_args =
            (if truthy (case a ''use_existing_project'' of None \<Rightarrow> PyBool False | Some v \<Rightarrow> v)
             then a(''project_creation_mode'' \<mapsto> Mode MUST_EXIST) else a);
          total_steps = length PROMPT_ORDER + 1;
          first_step = step_template 1 total_steps
      in case get_creds sys first_step a w of
           Inl e \<Rightarrow> Inl e
         | Inr (creds, w1) \<Rightarrow>
             prompt_loop sys (setup_prompts sys creds) total_steps (enumerate_from 2 PROMPT_ORDER)
               (new_args(''credentials'' \<mapsto> creds)) w1)"

section \<open>The update entry point\<close>










section \<open>A concrete environment\<close>

text \<open>
  An environment and clients for running the model on concrete inputs: the directory
  \<open>/srv/app\<close> exists, nobody is logged in, every project exists under the name
  \<open>Existing Project\<close>, and billing is enabled on every project.
\<close>

definition example_project_client :: project_client where
  "example_project_client =
     \<lparr>get_project = (\<lambda>project_id. ''Existing Project''), project_exists = (\<lambda>s. True)\<rparr>"

definition example_billing_client :: billing_client where
  "example_billing_client =
     \<lparr>get_billing_account =
        (\<lambda>project_id. \<lparr>billingEnabled = Some True,
                         billingAccountName = Some ''billingAccounts/reported''\<rparr>)\<rparr>"

definition example_auth_client :: auth_client where
  "example_auth_client =
     \<lparr>get_active_account = None,
      create_default_credentials = ''new-credentials'',
      get_default_credentials = ''default-credentials''\<rparr>"

definition example_system :: system where
  "example_system =
     \<lparr>os_path_exists = (\<lambda>directory. directory = ''/srv/app''),
      home_dir = ''/home/dev'',
      randint = 123456,
      set_order = (\<lambda>names. names),
      AuthClient = example_auth_client,
      ProjectClient_from_credentials = (\<lambda>creds. example_project_client),
      BillingClient_from_credentials = (\<lambda>creds. example_billing_client)\<rparr>"

definition world_of :: "string list \<Rightarrow> world" where
  "world_of typed = \<lparr>inputs = typed, trace = [], billing_responses = []\<rparr>"



text \<open>
  A result that, when it is a returned mapping, is the given mapping with one value other
  than \<open>None\<close> stored under the key \<open>P\<close>.
\<close>

definition sets_parameter :: "string \<Rightarrow> args \<Rightarrow> (error + (args \<times> world)) \<Rightarrow> bool" where
  "sets_parameter P a r = (\<forall>a' w'. r = Inr (a', w') \<longrightarrow> (\<exists>v. v \<noteq> PyNone \<and> a' = a(P \<mapsto> v)))"

text \<open>A key that is present with a value other than \<open>None\<close>.\<close>

definition populated :: "args \<Rightarrow> string \<Rightarrow> bool" where
  "populated a k = (\<exists>v. a k = Some v \<and> v \<noteq> PyNone)"

text \<open>Prompters called one after the other, each with its step label, on the growing mapping.\<close>

fun prompt_in_sequence ::
  "system \<Rightarrow> (prompter \<times> string) list \<Rightarrow> args \<Rightarrow> world \<Rightarrow> error + (args \<times> world)" where
  "prompt_in_sequence sys [] a w = Inr (a, w)"
| "prompt_in_sequence sys ((P, step) # rest) a w =
     (case prompt sys P step a w of
        Inl e \<Rightarrow> Inl e
      | Inr (a', w') \<Rightarrow> prompt_in_sequence sys rest a' w')"

text \<open>
  The ten prompters of \<open>RootPrompt.PROMPT_ORDER\<close> with their step labels, in the order of
  the list, built on clients made from the credentials.
\<close>

definition root_sequence :: "system \<Rightarrow> pyval \<Rightarrow> (prompter \<times> string) list" where
  "root_sequence sys creds =
     [(GoogleProjectId (ProjectClient_from_credentials sys creds), ''<b>[2/11]</b>''),
      (GoogleProjectName (ProjectClient_from_credentials sys creds), ''<b>[3/11]</b>''),
      (BillingPrompt (BillingClient_from_credentials sys creds), ''<b>[4/11]</b>''),
      (PostgresPasswordPrompt, ''<b>[5/11]</b>''),
      (DjangoFilesystemPath, ''<b>[6/11]</b>''),
      (DjangoProjectNamePrompt, ''<b>[7/11]</b>''),
      (DjangoAppNamePrompt, ''<b>[8/11]</b>''),
      (DjangoSuperuserLoginPrompt, ''<b>[9/11]</b>''),
      (DjangoSuperuserPasswordPrompt, ''<b>[10/11]</b>''),
      (DjangoSuperuserEmailPrompt, ''<b>[11/11]</b>'')]"

section \<open>Evaluation lemmas\<close>

lemmas string_defs =
  ascii_lowercase_def ascii_uppercase_def ascii_letters_def digits_def punctuation_def
  newline_def dquote_def squote_def lower_def lower_char_def replace_space_hyphen_def digit_char_def

lemmas console_defs = ask_def getpass_def emit_def tell_def console_error_def

lemmas example_defs =
  example_project_client_def example_billing_client_def example_auth_client_def
  example_system_def world_of_def

lemma length_string_of_nat_1: "r < 10 \<Longrightarrow> length (string_of_nat r) = 1"
  by (simp add: string_of_nat.simps[of r])

lemma length_string_of_nat_2: "10 \<le> r \<Longrightarrow> r < 100 \<Longrightarrow> length (string_of_nat r) = 2"
  by (simp add: string_of_nat.simps[of r] length_string_of_nat_1)

lemma length_string_of_nat_3: "100 \<le> r \<Longrightarrow> r < 1000 \<Longrightarrow> length (string_of_nat r) = 3"
  by (simp add: string_of_nat.simps[of r] length_string_of_nat_2)

lemma length_string_of_nat_4: "1000 \<le> r \<Longrightarrow> r < 10000 \<Longrightarrow> length (string_of_nat r) = 4"
  by (simp add: string_of_nat.simps[of r] length_string_of_nat_3)

lemma length_string_of_nat_5: "10000 \<le> r \<Longrightarrow> r < 100000 \<Longrightarrow> length (string_of_nat r) = 5"
  by (simp add: string_of_nat.simps[of r] length_string_of_nat_4)

lemma length_string_of_nat_6: "100000 \<le> r \<Longrightarrow> r < 1000000 \<Longrightarrow> length (string_of_nat r) = 6"
  by (simp add: string_of_nat.simps[of r] length_string_of_nat_5)

section \<open>Password validation\<close>

text \<open>
  C4. For every string \<open>p\<close>, \<open>_password_validate\<close> returns without raising exactly when
  \<open>p\<close> has at least 5 characters and its character set is not a superset of the allowed
  set (ASCII letters, digits and punctuation); in every other case it raises a
  \<open>ValueError\<close>.
\<close>

theorem password_validate_accepts_iff:
  "(password_validate (Str p) = None) =
     (5 \<le> length p \<and> \<not> set (ascii_letters @ digits @ punctuation) \<subseteq> set p) \<and>
   (\<exists>msg. password_validate (Str p) = Some (ValueError msg)) =
     (\<not> (5 \<le> length p \<and> \<not> set (ascii_letters @ digits @ punctuation) \<subseteq> set p))"
  by (auto simp add: password_validate_def on_str_def password_validate_str_def)

lemma missing_letter_not_superset:
  "CHR ''a'' \<notin> set p \<Longrightarrow> \<not> set (ascii_letters @ digits @ punctuation) \<subseteq> set p"
  by (auto simp: ascii_letters_def ascii_lowercase_def)

theorem password_validate_accepts_iff_witness:
  "password_validate (Str ''hunter2!'') = None \<and>
   (\<exists>msg. password_validate (Str ''abcd'') = Some (ValueError msg))"
  using password_validate_accepts_iff [of "''hunter2!''"] password_validate_accepts_iff [of "''abcd''"]
    missing_letter_not_superset [of "''hunter2!''"]
  by simp

section \<open>The default project id\<close>

text \<open>
  For a draw below 1000000 the generated id is a prefix of at most 23 characters, a
  hyphen and six digits, so at most 30 characters.
\<close>

lemma length_take_23: "length (take (30 - 6 - 1) xs) \<le> (23::nat)"
  by simp

lemma generate_default_project_id_shape:
  "\<exists>prefix. generate_default_project_id (Str project_name) r = Inr (prefix @ ''-'' @ string_of_nat r) \<and>
           length prefix \<le> 23"
proof -
  have s: "(if truthy (Str project_name) then Str project_name else Str ''django'') =
           Str (if project_name = [] then ''django'' else project_name)"
    by simp
  show ?thesis
    unfolding generate_default_project_id_def s pyval.case Let_def
    by (intro exI conjI, rule refl, rule length_take_23)
qed

lemma generate_default_project_id_six_digit_draw:
  assumes "100000 \<le> r" and "r < 1000000"
  shows "\<exists>prefix. generate_default_project_id (Str project_name) r = Inr (prefix @ ''-'' @ string_of_nat r) \<and>
           length prefix \<le> 23 \<and> length (string_of_nat r) = 6 \<and>
           length (prefix @ ''-'' @ string_of_nat r) \<le> 30"
proof -
  obtain prefix where p:
    "generate_default_project_id (Str project_name) r = Inr (prefix @ ''-'' @ string_of_nat r)"
    "length prefix \<le> 23"
    using generate_default_project_id_shape by blast
  have "length (string_of_nat r) = 6"
    using assms by (rule length_string_of_nat_6)
  with p show ?thesis by auto
qed

text \<open>
  C7 (the code at the upper end of \<open>random.randint(100000, 1000000)\<close>, which includes
  1000000). For the name \<open>My App!\<close> the suffix has seven digits, and for a name of 25
  characters the generated id has 31 characters.
\<close>

theorem generate_default_project_id_upper_draw:
  "generate_default_project_id (Str ''My App!'') 1000000 = Inr ''my-app-1000000'' \<and>
   generate_default_project_id (Str ''Django Deployment Project'') 1000000 =
     Inr ''django-deployment-proje-1000000'' \<and>
   length ''django-deployment-proje-1000000'' = 31"
  by (simp add: generate_default_project_id_def string_defs string_of_nat.simps Let_def)

section \<open>The multiple-choice prompt\<close>

text \<open>
  \<open>_multiple_choice_validate\<close> itself accepts a non-blank answer exactly when it is numeric
  and lies between 1 and \<open>len_options + 1\<close>.
\<close>

lemma multiple_choice_validate_accepts_iff:
  "s \<noteq> [] \<Longrightarrow>
   (multiple_choice_validate s dflt len_options = None) =
     (isnumeric s \<and> 1 \<le> int_of_string s \<and> int_of_string s \<le> len_options + 1)"
  by (simp add: multiple_choice_validate_def)

text \<open>
  C5 (the code with one option on the menu). \<open>_multiple_choice_prompt\<close> hands the
  validator the length of the joined menu text, here 4 for \<open>1. A\<close>, so the answer \<open>3\<close> is
  accepted although only one option is shown; \<open>_handle_existing_billing_accounts\<close> then
  indexes its one-element account list with 2.
\<close>

theorem multiple_choice_prompt_counts_characters:
  "multiple_choice_prompt ''Choose: {} ?'' [''A''] (Some [])
     \<lparr>inputs = [''3''], trace = [], billing_responses = []\<rparr> =
   Inr (''3'', \<lparr>inputs = [], trace = [Ask ''Choose: 1. A ?''], billing_responses = []\<rparr>) \<and>
   (\<exists>e. handle_existing_billing_accounts sys [\<lparr>name = ''billingAccounts/1'', displayName = ''A''\<rparr>]
     \<lparr>inputs = [''3''], trace = [], billing_responses = []\<rparr> = Inl e \<and> e = IndexError)"
  by (simp add: multiple_choice_prompt_def handle_existing_billing_accounts_def enumerate_from_def
      string_defs string_of_nat.simps console_defs multiple_choice_loop.simps
      multiple_choice_validate_def isnumeric_def int_of_string_def Let_def)

section \<open>The directory prompt\<close>

lemma ask_prompt_no_validation:
  "ask_prompt q (\<lambda>x. None) dflt w =
     (case inputs w of
        [] \<Rightarrow> Inl EOFError
      | typed # rest \<Rightarrow>
          Inr (if dflt \<noteq> None \<and> dflt \<noteq> Some [] \<and> typed = [] then the dflt else typed,
               emit (Ask q) (w\<lparr>inputs := rest\<rparr>)))"
  by (subst ask_prompt.simps) (simp add: ask_def split: list.splits)

text \<open>
  C9. When the directory the user entered exists, \<open>DjangoFilesystemPath.prompt\<close> asks the
  overwrite question once, reads one reply, and returns with the entered directory
  recorded, whatever the reply is: nothing further is read from the input, so a declining
  answer does not lead to a new question for another path.
\<close>

theorem DjangoFilesystemPath_prompt_confirms_once:
  assumes "ask_for_directory sys step a w = Inr (directory, w1)"
    and "os_path_exists sys directory"
    and "inputs w1 = reply # rest"
  shows "DjangoFilesystemPath_prompt sys step a w =
           Inr (a(''django_directory_path'' \<mapsto> Str directory),
                emit (Ask (''The directory '' @ squote @ directory @ squote @
                           '' already exists, replace it'' @ squote @ ''s contents [y/N]: ''))
                  (w1\<lparr>inputs := rest\<rparr>))"
  using assms
  by (simp add: DjangoFilesystemPath_prompt_def ask_to_replace_def ask_prompt_no_validation)

theorem DjangoFilesystemPath_prompt_confirms_once_witness:
  "DjangoFilesystemPath_prompt example_system ''[6/11]'' Map.empty
     (world_of [''/srv/app'', ''n'', ''/srv/other'']) =
   Inr ([''django_directory_path'' \<mapsto> Str ''/srv/app''],
        \<lparr>inputs = [''/srv/other''],
         trace =
           [Ask (''[6/11] Enter a new directory path to store project source, or leave blank to use'' @
                 newline @ ''[/home/dev/django-project]: ''),
            Ask (''The directory '' @ squote @ ''/srv/app'' @ squote @
                 '' already exists, replace it'' @ squote @ ''s contents [y/N]: '')],
         billing_responses = []\<rparr>)"
  using DjangoFilesystemPath_prompt_confirms_once
    [of example_system "''[6/11]''" Map.empty "world_of [''/srv/app'', ''n'', ''/srv/other'']"
        "''/srv/app''"
        "\<lparr>inputs = [''n'', ''/srv/other''],
          trace = [Ask (''[6/11] Enter a new directory path to store project source, or leave blank to use'' @
                        newline @ ''[/home/dev/django-project]: '')],
          billing_responses = []\<rparr>"
        "''n''" "[''/srv/other'']"]
  by (simp add: ask_for_directory_def ask_prompt_no_validation os_path_join_def example_defs
      string_defs console_defs Let_def)

section \<open>Waiting for a new billing account\<close>

lemma poll_billing_accounts_skips:
  assumes "\<forall>r \<in> set same. length r = length existing"
    and "length changed \<noteq> length existing"
    and "billing_responses w = same @ changed # later"
  shows "poll_billing_accounts sys existing w =
           (case set_order sys (remdups (filter (\<lambda>n. n \<notin> set (map name existing)) (map name changed))) of
              [] \<Rightarrow> Inl IndexError
            | first # others \<Rightarrow>
                Inr (first, w\<lparr>billing_responses := later,
                              trace := trace w @ replicate (length same) (Sleep 2)\<rparr>))"
  using assms
proof (induction same arbitrary: w)
  case Nil
  then show ?case
    by (subst poll_billing_accounts.simps) (simp add: list_billing_accounts_def split: list.splits)
next
  case (Cons r same)
  let ?w1 = "emit (Sleep 2) (w\<lparr>billing_responses := same @ changed # later\<rparr>)"
  have step: "poll_billing_accounts sys existing w = poll_billing_accounts sys existing ?w1"
    using Cons.prems by (subst poll_billing_accounts.simps) (simp add: list_billing_accounts_def)
  have "poll_billing_accounts sys existing ?w1 =
        (case set_order sys (remdups (filter (\<lambda>n. n \<notin> set (map name existing)) (map name changed))) of
           [] \<Rightarrow> Inl IndexError
         | first # others \<Rightarrow>
             Inr (first, ?w1\<lparr>billing_responses := later,
                              trace := trace ?w1 @ replicate (length same) (Sleep 2)\<rparr>))"
    using Cons.prems by (intro Cons.IH) (simp_all add: emit_def)
  then show ?case
    unfolding step by (simp add: emit_def replicate_append_same split: list.splits)
qed

text \<open>
  C10. \<open>_get_new_billing_account\<close> opens the browser, announces the wait, and polls: every
  answer of the billing service with as many accounts as the initial list is followed by
  a sleep of 2 seconds, and the first answer of another length ends the loop, leaving later
  answers unread. The result is element 0 of the listed difference between the polled
  names and the initial names: a name of the polled list that is not an initial name when
  there is one, and an \<open>IndexError\<close> when the length changed without a new name.
\<close>

theorem get_new_billing_account_first_difference:
  assumes "\<forall>names. set (set_order sys names) = set names"
    and "billing_responses w = same @ changed # later"
    and "\<forall>r \<in> set same. length r = length existing"
    and "length changed \<noteq> length existing"
  shows "get_new_billing_account sys existing w =
           (case set_order sys (remdups (filter (\<lambda>n. n \<notin> set (map name existing)) (map name changed))) of
              [] \<Rightarrow> Inl IndexError
            | first # others \<Rightarrow>
                Inr (first,
                     w\<lparr>billing_responses := later,
                       trace := trace w @
                         [OpenBrowser ''https://console.cloud.google.com/billing/create'',
                          Tell ''Waiting for billing account to be created.''] @
                         replicate (length same) (Sleep 2)\<rparr>)) \<and>
         (set (map name changed) \<subseteq> set (map name existing) \<longrightarrow>
            get_new_billing_account sys existing w = Inl IndexError) \<and>
         (\<not> set (map name changed) \<subseteq> set (map name existing) \<longrightarrow>
            (\<exists>first w'. get_new_billing_account sys existing w = Inr (first, w') \<and>
               first \<in> set (map name changed) \<and> first \<notin> set (map name existing)))"
proof -
  let ?diff = "remdups (filter (\<lambda>n. n \<notin> set (map name existing)) (map name changed))"
  let ?w0 = "tell ''Waiting for billing account to be created.''
               (emit (OpenBrowser ''https://console.cloud.google.com/billing/create'') w)"
  have eq: "get_new_billing_account sys existing w =
            (case set_order sys ?diff of
               [] \<Rightarrow> Inl IndexError
             | first # others \<Rightarrow>
                 Inr (first, ?w0\<lparr>billing_responses := later,
                                  trace := trace ?w0 @ replicate (length same) (Sleep 2)\<rparr>))"
    unfolding get_new_billing_account_def
    using assms(2-4) by (intro poll_billing_accounts_skips) (simp_all add: tell_def emit_def)
  have set_diff: "set (set_order sys ?diff) = set (map name changed) - set (map name existing)"
    using assms(1) by auto
  have first: ?thesis if "set_order sys ?diff = []"
  proof -
    have "set (map name changed) \<subseteq> set (map name existing)"
      using set_diff that by auto
    then show ?thesis
      using eq that by simp
  qed
  have second: ?thesis if "set_order sys ?diff = x # xs" for x xs
  proof -
    have "x \<in> set (map name changed) - set (map name existing)"
      using set_diff that by (metis list.set_intros(1))
    then show ?thesis
      using eq that by (auto simp add: tell_def emit_def)
  qed
  show ?thesis
    using first second by (cases "set_order sys ?diff") blast+
qed

theorem get_new_billing_account_first_difference_witness:
  "get_new_billing_account example_system
     [\<lparr>name = ''billingAccounts/A'', displayName = ''A''\<rparr>]
     \<lparr>inputs = [], trace = [],
      billing_responses =
        [[\<lparr>name = ''billingAccounts/A'', displayName = ''A''\<rparr>],
         [\<lparr>name = ''billingAccounts/A'', displayName = ''A''\<rparr>,
          \<lparr>name = ''billingAccounts/B'', displayName = ''B''\<rparr>],
         []]\<rparr> =
   Inr (''billingAccounts/B'',
        \<lparr>inputs = [],
         trace = [OpenBrowser ''https://console.cloud.google.com/billing/create'',
                  Tell ''Waiting for billing account to be created.'', Sleep 2],
         billing_responses = [[]]\<rparr>) \<and>
   get_new_billing_account example_system
     [\<lparr>name = ''billingAccounts/A'', displayName = ''A''\<rparr>,
      \<lparr>name = ''billingAccounts/B'', displayName = ''B''\<rparr>]
     \<lparr>inputs = [], trace = [],
      billing_responses =
        [[\<lparr>name = ''billingAccounts/A'', displayName = ''A''\<rparr>]]\<rparr> =
   Inl IndexError"
  using get_new_billing_account_first_difference
    [of example_system
        "\<lparr>inputs = [], trace = [],
          billing_responses =
            [[\<lparr>name = ''billingAccounts/A'', displayName = ''A''\<rparr>],
             [\<lparr>name = ''billingAccounts/A'', displayName = ''A''\<rparr>,
              \<lparr>name = ''billingAccounts/B'', displayName = ''B''\<rparr>],
             []]\<rparr>"
        "[[\<lparr>name = ''billingAccounts/A'', displayName = ''A''\<rparr>]]"
        "[\<lparr>name = ''billingAccounts/A'', displayName = ''A''\<rparr>,
          \<lparr>name = ''billingAccounts/B'', displayName = ''B''\<rparr>]"
        "[[]]"
        "[\<lparr>name = ''billingAccounts/A'', displayName = ''A''\<rparr>]"]
    get_new_billing_account_first_difference
    [of example_system
        "\<lparr>inputs = [], trace = [],
          billing_responses = [[\<lparr>name = ''billingAccounts/A'', displayName = ''A''\<rparr>]]\<rparr>"
        "[]"
        "[\<lparr>name = ''billingAccounts/A'', displayName = ''A''\<rparr>]"
        "[]"
        "[\<lparr>name = ''billingAccounts/A'', displayName = ''A''\<rparr>,
          \<lparr>name = ''billingAccounts/B'', displayName = ''B''\<rparr>]"]
  by (simp add: example_defs)

section \<open>Billing on an existing project\<close>




section \<open>Validation failures: flags of the update entry point, and the prompt loop\<close>






section \<open>What a prompter does to the mapping\<close>

lemma is_valid_passed_arg_True:
  assumes "is_valid_passed_arg P step (get_or_none a P) validate w = Inr (True, w1)"
  shows "\<exists>v. v \<noteq> PyNone \<and> a P = Some v"
  using assms
  by (auto simp: is_valid_passed_arg_def get_or_none_def split: if_splits option.splits error.splits)

lemma sets_parameter_Inl: "sets_parameter P a (Inl e)"
  by (simp add: sets_parameter_def)

lemma sets_parameter_Inr: "v \<noteq> PyNone \<Longrightarrow> sets_parameter P a (Inr (a(P \<mapsto> v), w))"
  by (auto simp add: sets_parameter_def)

lemma sets_parameter_bind:
  "(\<And>x w'. sets_parameter P a (f x w')) \<Longrightarrow>
   sets_parameter P a (case r of Inl e \<Rightarrow> Inl e | Inr (x, w') \<Rightarrow> f x w')"
  by (cases r) (auto simp: sets_parameter_Inl)

lemma sets_parameter_option:
  "sets_parameter P a g \<Longrightarrow> (\<And>b. sets_parameter P a (f b)) \<Longrightarrow>
   sets_parameter P a (case x of None \<Rightarrow> g | Some b \<Rightarrow> f b)"
  by (cases x) auto

lemma sets_parameter_if:
  "sets_parameter P a f \<Longrightarrow> sets_parameter P a g \<Longrightarrow> sets_parameter P a (if c then f else g)"
  by simp

lemma sets_parameter_flag:
  assumes "\<And>w1. sets_parameter P a (collect w1)"
  shows "sets_parameter P a
           (case is_valid_passed_arg P step (get_or_none a P) validate w of
              Inl e \<Rightarrow> Inl e
            | Inr (True, w1) \<Rightarrow> Inr (a, w1)
            | Inr (False, w1) \<Rightarrow> collect w1)"
proof (cases "is_valid_passed_arg P step (get_or_none a P) validate w")
  case (Inl e)
  then show ?thesis by (simp add: sets_parameter_def)
next
  case (Inr bw)
  obtain b w1 where bw: "bw = (b, w1)" by (cases bw)
  show ?thesis
  proof (cases b)
    case True
    have "is_valid_passed_arg P step (get_or_none a P) validate w = Inr (True, w1)"
      using Inr bw True by simp
    from is_valid_passed_arg_True[OF this] obtain v where "v \<noteq> PyNone" "a P = Some v"
      by blast
    then have "a = a(P \<mapsto> v)" by (simp add: fun_upd_idem)
    then show ?thesis using Inr bw True \<open>v \<noteq> PyNone\<close> by (auto simp add: sets_parameter_def)
  next
    case False
    then show ?thesis using Inr bw assms by simp
  qed
qed

lemmas sets_parameter_intros =
  sets_parameter_flag sets_parameter_bind sets_parameter_option sets_parameter_if
  sets_parameter_Inl sets_parameter_Inr

lemma StringTemplatePrompt_sets: "sets_parameter P a (StringTemplatePrompt_prompt P pretty d v step a w)"
  unfolding StringTemplatePrompt_prompt_def Let_def
  by (intro sets_parameter_intros pyval.distinct)

lemma GoogleProjectName_sets: "sets_parameter ''project_name'' a (GoogleProjectName_prompt pc step a w)"
  unfolding GoogleProjectName_prompt_def Let_def
  by (intro sets_parameter_intros pyval.distinct)

lemma GoogleNewProjectId_sets: "sets_parameter ''project_id'' a (GoogleNewProjectId_prompt sys step a w)"
  unfolding GoogleNewProjectId_prompt_def Let_def
  by (rule sets_parameter_flag) (auto simp: sets_parameter_def split: sum.splits)

lemma GoogleExistingProjectId_sets: "sets_parameter ''project_id'' a (GoogleExistingProjectId_prompt pc step a w)"
  unfolding GoogleExistingProjectId_prompt_def Let_def
  by (intro sets_parameter_intros pyval.distinct)

lemma GoogleProjectId_sets: "sets_parameter ''project_id'' a (GoogleProjectId_prompt sys pc step a w)"
  unfolding GoogleProjectId_prompt_def
  by (simp add: GoogleNewProjectId_sets GoogleExistingProjectId_sets)

lemma CredentialsPrompt_sets: "sets_parameter ''credentials'' a (CredentialsPrompt_prompt ac step a w)"
  unfolding CredentialsPrompt_prompt_def Let_def
  by (intro sets_parameter_intros pyval.distinct)

lemma BillingPrompt_sets: "sets_parameter ''billing_account_name'' a (BillingPrompt_prompt sys bc step a w)"
  unfolding BillingPrompt_prompt_def Let_def
  by (intro sets_parameter_intros pyval.distinct)

lemma PostgresPasswordPrompt_sets: "sets_parameter ''database_password'' a (PostgresPasswordPrompt_prompt step a w)"
  unfolding PostgresPasswordPrompt_prompt_def Let_def
  by (intro sets_parameter_intros pyval.distinct)

lemma DjangoSuperuserPasswordPrompt_sets:
  "sets_parameter ''django_superuser_password'' a (DjangoSuperuserPasswordPrompt_prompt step a w)"
  unfolding DjangoSuperuserPasswordPrompt_prompt_def Let_def
  by (intro sets_parameter_intros pyval.distinct)

lemma DjangoFilesystemPath_sets:
  "sets_parameter ''django_directory_path'' a (DjangoFilesystemPath_prompt sys step a w)"
  unfolding DjangoFilesystemPath_prompt_def
  by (intro sets_parameter_intros pyval.distinct)

lemma prompt_sets_parameter: "sets_parameter (PARAMETER P) a (prompt sys P step a w)"
  by (cases P)
     (simp_all add: StringTemplatePrompt_sets GoogleProjectName_sets GoogleNewProjectId_sets
        GoogleExistingProjectId_sets GoogleProjectId_sets CredentialsPrompt_sets BillingPrompt_sets
        PostgresPasswordPrompt_sets DjangoSuperuserPasswordPrompt_sets DjangoFilesystemPath_sets)



section \<open>The root sequencer\<close>

lemma populated_upd: "v \<noteq> PyNone \<Longrightarrow> populated (a(k \<mapsto> v)) k' = (k' = k \<or> populated a k')"
  by (auto simp: populated_def)

lemma prompt_populates:
  assumes "prompt sys P step a w = Inr (a', w')"
  shows "populated a' k = (k = PARAMETER P \<or> populated a k)"
proof -
  from prompt_sets_parameter[of P a sys step w] assms
  obtain v where "v \<noteq> PyNone" "a' = a(PARAMETER P \<mapsto> v)"
    unfolding sets_parameter_def by blast
  then show ?thesis by (simp add: populated_upd)
qed

lemma prompt_in_sequence_populates:
  assumes "prompt_in_sequence sys ps a w = Inr (a', w')"
  shows "populated a' k = (k \<in> PARAMETER ` fst ` set ps \<or> populated a k)"
  using assms
proof (induction ps arbitrary: a w)
  case Nil
  then show ?case by simp
next
  case (Cons p ps)
  obtain P step where p: "p = (P, step)" by (cases p)
  from Cons.prems p obtain a1 w1 where
    one: "prompt sys P step a w = Inr (a1, w1)" and
    rest: "prompt_in_sequence sys ps a1 w1 = Inr (a', w')"
    by (auto split: sum.splits)
  from Cons.IH[OF rest] prompt_populates[OF one] show ?case
    using p by auto
qed

lemma prompt_loop_as_sequence:
  "\<forall>ik \<in> set ks. prompts (snd ik) \<noteq> None \<Longrightarrow>
   prompt_loop sys prompts total_steps ks a w =
   prompt_in_sequence sys (map (\<lambda>ik. (the (prompts (snd ik)), step_template (fst ik) total_steps)) ks) a w"
proof (induction ks arbitrary: a w)
  case Nil
  then show ?case by simp
next
  case (Cons ik ks)
  obtain i k where ik: "ik = (i, k)" by (cases ik)
  from Cons.prems ik obtain p where p: "prompts k = Some p" by auto
  have IH: "\<And>a w. prompt_loop sys prompts total_steps ks a w =
     prompt_in_sequence sys (map (\<lambda>ik. (the (prompts (snd ik)), step_template (fst ik) total_steps)) ks) a w"
    using Cons by simp
  show ?case
    by (simp add: ik p IH split: sum.splits)
qed

lemma root_loop:
  "prompt_loop sys (setup_prompts sys creds) (length PROMPT_ORDER + 1) (enumerate_from 2 PROMPT_ORDER) a w =
   prompt_in_sequence sys (root_sequence sys creds) a w"
proof -
  have keys: "\<forall>ik \<in> set (enumerate_from 2 PROMPT_ORDER). setup_prompts sys creds (snd ik) \<noteq> None"
    by (simp add: enumerate_from_def PROMPT_ORDER_def setup_prompts_def Let_def)
  have "map (\<lambda>ik. (the (setup_prompts sys creds (snd ik)), step_template (fst ik) (length PROMPT_ORDER + 1)))
          (enumerate_from 2 PROMPT_ORDER) = root_sequence sys creds"
    by (simp add: enumerate_from_def PROMPT_ORDER_def setup_prompts_def Let_def root_sequence_def
        step_template_def string_of_nat.simps string_defs)
  with prompt_loop_as_sequence[OF keys] show ?thesis by simp
qed

lemma root_sequence_parameters:
  "map (PARAMETER \<circ> fst) (root_sequence sys creds) = PROMPT_ORDER"
  by (simp add: root_sequence_def PROMPT_ORDER_def)

lemma get_creds_populated:
  assumes "get_creds sys step a w = Inr (creds, w1)"
  shows "creds \<noteq> PyNone"
proof -
  from assms obtain a' where
    run: "CredentialsPrompt_prompt (AuthClient sys) step a w = Inr (a', w1)" and
    c: "a' ''credentials'' = Some creds"
    by (auto simp: get_creds_def split: sum.splits option.splits)
  from CredentialsPrompt_sets[of a "AuthClient sys" step w] run
  obtain v where "v \<noteq> PyNone" "a' = a(''credentials'' \<mapsto> v)"
    unfolding sets_parameter_def by blast
  with c show ?thesis by simp
qed

text \<open>
  C1. On an empty answer mapping (or one that only says \<open>use_existing_project = False\<close>),
  \<open>RootPrompt.prompt\<close> resolves the credentials first, as step 1 of 11, and then calls the
  prompters of the ten \<open>PROMPT_ORDER\<close> parameters one after the other in that order, as
  steps 2 to 11, each on the mapping the previous one returned. When it returns, the mapping
  holds a value other than \<open>None\<close> for \<open>credentials\<close> and for each of the ten keys.
\<close>

theorem RootPrompt_prompt_order:
  assumes "a = Map.empty \<or> a = [''use_existing_project'' \<mapsto> PyBool False]"
  shows "RootPrompt_prompt sys a w =
           (case get_creds sys ''<b>[1/11]</b>'' a w of
              Inl e \<Rightarrow> Inl e
            | Inr (creds, w1) \<Rightarrow>
                prompt_in_sequence sys (root_sequence sys creds) (a(''credentials'' \<mapsto> creds)) w1) \<and>
         (\<forall>creds. map (PARAMETER \<circ> fst) (root_sequence sys creds) = PROMPT_ORDER) \<and>
         (\<forall>a' w'. RootPrompt_prompt sys a w = Inr (a', w') \<longrightarrow>
            (\<forall>k \<in> set (''credentials'' # PROMPT_ORDER). populated a' k))"
proof -
  have new_args: "(if truthy (case a ''use_existing_project'' of None \<Rightarrow> PyBool False | Some v \<Rightarrow> v)
             then a(''project_creation_mode'' \<mapsto> Mode MUST_EXIST) else a) = a"
    using assms by auto
  have first_step: "step_template 1 (length PROMPT_ORDER + 1) = ''<b>[1/11]</b>''"
    by (simp add: step_template_def PROMPT_ORDER_def string_of_nat.simps string_defs)
  have eq: "RootPrompt_prompt sys a w =
           (case get_creds sys ''<b>[1/11]</b>'' a w of
              Inl e \<Rightarrow> Inl e
            | Inr (creds, w1) \<Rightarrow>
                prompt_in_sequence sys (root_sequence sys creds) (a(''credentials'' \<mapsto> creds)) w1)"
    unfolding RootPrompt_prompt_def Let_def new_args first_step root_loop ..
  have order: "\<forall>creds. map (PARAMETER \<circ> fst) (root_sequence sys creds) = PROMPT_ORDER"
    by (simp add: root_sequence_parameters)
  have pop: "populated a' k" if run: "RootPrompt_prompt sys a w = Inr (a', w')"
    and k: "k \<in> set (''credentials'' # PROMPT_ORDER)" for a' w' k
  proof -
    from run eq obtain creds w1 where
      c: "get_creds sys ''<b>[1/11]</b>'' a w = Inr (creds, w1)" and
      s: "prompt_in_sequence sys (root_sequence sys creds) (a(''credentials'' \<mapsto> creds)) w1 = Inr (a', w')"
      by (auto split: sum.splits)
    have "creds \<noteq> PyNone" using c by (rule get_creds_populated)
    then have "populated (a(''credentials'' \<mapsto> creds)) ''credentials''"
      by (simp add: populated_def)
    moreover have "PARAMETER ` fst ` set (root_sequence sys creds) = set PROMPT_ORDER"
      using arg_cong[OF root_sequence_parameters[of sys creds], of set] by (simp add: image_comp)
    ultimately show ?thesis
      using prompt_in_sequence_populates[OF s, of k] k by auto
  qed
  show ?thesis using eq order pop by blast
qed

theorem RootPrompt_prompt_order_witness:
  "(case RootPrompt_prompt example_system Map.empty
           \<lparr>inputs = [[], ''my-project-1'', [], [], ''hunter2!'', ''hunter2!'', [], [], [], [],
                      ''s3cret!'', ''s3cret!'', []],
            trace = [],
            billing_responses =
              [[], [\<lparr>name = ''billingAccounts/new'', displayName = ''New''\<rparr>]]\<rparr> of
      Inl e \<Rightarrow> []
    | Inr (a', w') \<Rightarrow> map a' (''credentials'' # PROMPT_ORDER)) =
   [Some (Credentials ''new-credentials''), Some (Str ''my-project-1''), Some (Str ''Django Project''),
    Some (Str ''billingAccounts/new''), Some (Str ''hunter2!''), Some (Str ''/home/dev/django-project''),
    Some (Str ''mysite''), Some (Str ''home''), Some (Str ''admin''), Some (Str ''s3cret!''),
    Some (Str ''test@example.com'')]"
proof -
  let ?w = "\<lparr>inputs = [[], ''my-project-1'', [], [], ''hunter2!'', ''hunter2!'', [], [], [], [],
                      ''s3cret!'', ''s3cret!'', []],
            trace = [],
            billing_responses =
              [[], [\<lparr>name = ''billingAccounts/new'', displayName = ''New''\<rparr>]]\<rparr>"
  have hyp: "(Map.empty :: args) = Map.empty \<or> (Map.empty :: args) = [''use_existing_project'' \<mapsto> PyBool False]"
    by simp
  note eq = conjunct1 [OF RootPrompt_prompt_order [OF hyp, of example_system ?w]]
  show ?thesis
    unfolding eq
    by (simp add: get_creds_def CredentialsPrompt_prompt_def is_valid_passed_arg_def get_or_none_def
        TemplatePrompt_validate_def binary_prompt.simps binary_validate_def root_sequence_def
        GoogleProjectId_prompt_def GoogleNewProjectId_prompt_def GoogleNewProjectId_validate_def
        generate_default_project_id_def project_id_match_def
        GoogleProjectName_prompt_def GoogleProjectName_validate_def is_new_project_def handle_new_project_def
        BillingPrompt_prompt_def does_project_exist_def list_billing_accounts_def
        get_new_billing_account_def poll_billing_accounts.simps
        PostgresPasswordPrompt_prompt_def password_prompt_def password_loop.simps
        password_validate_def password_validate_str_def on_str_def
        DjangoFilesystemPath_prompt_def ask_for_directory_def os_path_join_def
        StringTemplatePrompt_prompt_def DjangoProjectName_validate_def DjangoAppName_validate_def
        DjangoSuperuserLogin_validate_def DjangoSuperuserEmail_validate_def
        isidentifier_def isalnum_def email_match_def
        DjangoSuperuserPasswordPrompt_prompt_def
        ask_prompt.simps PROMPT_ORDER_def
        example_defs string_defs console_defs string_of_nat.simps Let_def)
qed

end
